theory Spec2Isabelle
  imports Complex_Main "HOL-Library.Multiset"
begin

section \<open>Stimulus trees of \<^verbatim>\<open>neuroanalysis/stimuli.py\<close>\<close>

text \<open>
  A shallow embedding of the stimulus description classes. Python floats are modelled by
  exact reals (no rounding, no NaN), Python ints by \<open>int\<close>, \<^verbatim>\<open>None\<close>-able strings by
  \<open>string option\<close>, and the float arrays of \<^verbatim>\<open>SquarePulseSeries\<close> by Python lists of reals.
\<close>

subsection \<open>Values, errors, classes\<close>

text \<open>The attribute values that \<^verbatim>\<open>getattr\<close>, \<^verbatim>\<open>save\<close> and \<^verbatim>\<open>load\<close> move around.\<close>

datatype pyval = PNone | PStr string | PNum real | PInt int | PList "real list"

text \<open>Every exception the modelled code can raise.\<close>

datatype error =
    AttributeError string
  | TypeError string
  | KeyError string
  | AssertionError string
  | ValueError string
  | IndexError string
  | Exception string

text \<open>The classes of the module; \<open>class_name\<close> is \<^verbatim>\<open>cls.__name__\<close>.\<close>

datatype cls =
    Stimulus | LazyLoadStimulus | Offset | SquarePulse | SquarePulseTrain
  | SquarePulseSeries | Ramp | Sine | Chirp | Psp

fun class_name :: "cls \<Rightarrow> string" where
  "class_name Stimulus = ''Stimulus''"
| "class_name LazyLoadStimulus = ''LazyLoadStimulus''"
| "class_name Offset = ''Offset''"
| "class_name SquarePulse = ''SquarePulse''"
| "class_name SquarePulseTrain = ''SquarePulseTrain''"
| "class_name SquarePulseSeries = ''SquarePulseSeries''"
| "class_name Ramp = ''Ramp''"
| "class_name Sine = ''Sine''"
| "class_name Chirp = ''Chirp''"
| "class_name Psp = ''Psp''"

subsection \<open>Instances\<close>

text \<open>
  The instance attributes each subclass sets in \<^verbatim>\<open>__init__\<close> before it calls
  \<^verbatim>\<open>Stimulus.__init__\<close>. The attribute \<^verbatim>\<open>duration\<close> is kept with the node (below).
  \<^verbatim>\<open>pulse_number\<close> is the attribute that trains, series and the pulse detectors assign
  to the pulses they create (absent otherwise). A \<^verbatim>\<open>LazyLoadStimulus\<close> is modelled after its children have been materialised: its
  \<^verbatim>\<open>items\<close> property is the only way the module reads its children, and it returns
  what the loader produced.
\<close>

datatype fields =
    StimulusF
  | LazyLoadStimulusF
  | OffsetF (amplitude: real)
  | SquarePulseF (amplitude: real) (pulse_number: "nat option")
  | SquarePulseTrainF (n_pulses: int) (pulse_duration: real) (amplitude: real) (interval: real)
  | SquarePulseSeriesF (pulse_times: "real list") (pulse_durations: "real list")
      (amplitudes: "real list")
  | RampF (slope: real) (offset: real)
  | SineF (frequency: real) (amplitude: real) (phase: real) (offset: real)
  | ChirpF (start_frequency: real) (end_frequency: real) (amplitude: real) (phase: real)
      (offset: real)
  | PspF (rise_time: real) (decay_tau: real) (amplitude: real) (rise_power: real)

text \<open>
  A node: \<^verbatim>\<open>description\<close>, \<^verbatim>\<open>_start_time\<close>, \<^verbatim>\<open>units\<close>, the stored attribute
  \<^verbatim>\<open>duration\<close> (set by the subclass, or to 0 by \<^verbatim>\<open>Stimulus.__init__\<close>, and assignable
  afterwards; a \<^verbatim>\<open>Psp\<close> has the property instead and ignores this field), the subclass
  attributes and \<^verbatim>\<open>_items\<close>.
\<close>

datatype stim =
  Stim (description: string) (start_time: real) (units: "string option")
    (duration_attr: real) (params: fields) (items: "stim list")

fun class_of :: "fields \<Rightarrow> cls" where
  "class_of StimulusF = Stimulus"
| "class_of LazyLoadStimulusF = LazyLoadStimulus"
| "class_of (OffsetF _) = Offset"
| "class_of (SquarePulseF _ _) = SquarePulse"
| "class_of (SquarePulseTrainF _ _ _ _) = SquarePulseTrain"
| "class_of (SquarePulseSeriesF _ _ _) = SquarePulseSeries"
| "class_of (RampF _ _) = Ramp"
| "class_of (SineF _ _ _ _) = Sine"
| "class_of (ChirpF _ _ _ _ _) = Chirp"
| "class_of (PspF _ _ _ _) = Psp"

text \<open>\<^verbatim>\<open>Stimulus.type\<close>: \<^verbatim>\<open>type(self).__name__\<close>.\<close>

definition type_of :: "stim \<Rightarrow> string" where
  "type_of s = class_name (class_of (params s))"

text \<open>\<^verbatim>\<open>self.duration\<close>: the property of \<^verbatim>\<open>Psp\<close>, the stored attribute otherwise.\<close>

definition duration :: "stim \<Rightarrow> real" where
  "duration s =
     (case params s of
        PspF rt dtau _ _ \<Rightarrow> 15 * max rt dtau
      | _ \<Rightarrow> duration_attr s)"

text \<open>The class attribute \<^verbatim>\<open>_attributes\<close>.\<close>

definition Stimulus_attributes :: "string list" where
  "Stimulus_attributes = [''description'', ''start_time'', ''units'']"

fun attributes :: "cls \<Rightarrow> string list" where
  "attributes Stimulus = Stimulus_attributes"
| "attributes LazyLoadStimulus = Stimulus_attributes"
| "attributes Offset = Stimulus_attributes @ [''amplitude'']"
| "attributes SquarePulse = Stimulus_attributes @ [''duration'', ''amplitude'']"
| "attributes SquarePulseTrain =
     Stimulus_attributes @ [''n_pulses'', ''pulse_duration'', ''amplitude'', ''interval'']"
| "attributes SquarePulseSeries =
     Stimulus_attributes @ [''pulse_times'', ''pulse_durations'', ''amplitudes'']"
| "attributes Ramp = Stimulus_attributes @ [''duration'', ''slope'', ''initial_amplitude'']"
| "attributes Sine =
     Stimulus_attributes @ [''duration'', ''frequency'', ''amplitude'', ''phase'']"
| "attributes Chirp =
     Stimulus_attributes @
       [''duration'', ''start_frequency'', ''end_frequency'', ''amplitude'', ''phase'', ''offset'']"
| "attributes Psp =
     Stimulus_attributes @ [''rise_time'', ''decay_tau'', ''amplitude'', ''rise_power'']"

text \<open>
  \<^verbatim>\<open>getattr(self, name)\<close> for the names the module asks for: the attributes of
  \<^verbatim>\<open>Stimulus.__init__\<close>, \<^verbatim>\<open>duration\<close>, and what the subclass stored. A name the instance
  does not have raises \<^verbatim>\<open>AttributeError\<close>.
\<close>

fun field_attr :: "fields \<Rightarrow> string \<Rightarrow> error + pyval" where
  "field_attr (OffsetF a) n =
     (if n = ''amplitude'' then Inr (PNum a) else Inl (AttributeError n))"
| "field_attr (SquarePulseF a pn) n =
     (if n = ''amplitude'' then Inr (PNum a) else Inl (AttributeError n))"
| "field_attr (SquarePulseTrainF np pd a iv) n =
     (if n = ''n_pulses'' then Inr (PInt np)
      else if n = ''pulse_duration'' then Inr (PNum pd)
      else if n = ''amplitude'' then Inr (PNum a)
      else if n = ''interval'' then Inr (PNum iv)
      else Inl (AttributeError n))"
| "field_attr (SquarePulseSeriesF ts ds as) n =
     (if n = ''pulse_times'' then Inr (PList ts)
      else if n = ''pulse_durations'' then Inr (PList ds)
      else if n = ''amplitudes'' then Inr (PList as)
      else Inl (AttributeError n))"
| "field_attr (RampF sl off) n =
     (if n = ''slope'' then Inr (PNum sl)
      else if n = ''offset'' then Inr (PNum off)
      else Inl (AttributeError n))"
| "field_attr (SineF f a ph off) n =
     (if n = ''frequency'' then Inr (PNum f)
      else if n = ''amplitude'' then Inr (PNum a)
      else if n = ''phase'' then Inr (PNum ph)
      else if n = ''offset'' then Inr (PNum off)
      else Inl (AttributeError n))"
| "field_attr (ChirpF f0 f1 a ph off) n =
     (if n = ''start_frequency'' then Inr (PNum f0)
      else if n = ''end_frequency'' then Inr (PNum f1)
      else if n = ''amplitude'' then Inr (PNum a)
      else if n = ''phase'' then Inr (PNum ph)
      else if n = ''offset'' then Inr (PNum off)
      else Inl (AttributeError n))"
| "field_attr (PspF rt dtau a rp) n =
     (if n = ''rise_time'' then Inr (PNum rt)
      else if n = ''decay_tau'' then Inr (PNum dtau)
      else if n = ''amplitude'' then Inr (PNum a)
      else if n = ''rise_power'' then Inr (PNum rp)
      else Inl (AttributeError n))"
| "field_attr _ n = Inl (AttributeError n)"

definition getattr :: "stim \<Rightarrow> string \<Rightarrow> error + pyval" where
  "getattr s n =
     (if n = ''description'' then Inr (PStr (description s))
      else if n = ''start_time'' then Inr (PNum (start_time s))
      else if n = ''units'' then Inr (case units s of None \<Rightarrow> PNone | Some u \<Rightarrow> PStr u)
      else if n = ''duration'' then Inr (PNum (duration s))
      else field_attr (params s) n)"

subsection \<open>Equality\<close>

text \<open>
  The attribute loop of \<^verbatim>\<open>Stimulus.__eq__\<close>: \<open>Inr True\<close> when some listed attribute
  differs, the error when \<^verbatim>\<open>getattr\<close> raises.
\<close>

fun attrs_differ :: "stim \<Rightarrow> stim \<Rightarrow> string list \<Rightarrow> error + bool" where
  "attrs_differ a b [] = Inr False"
| "attrs_differ a b (n # ns) =
     (case getattr a n of
        Inl e \<Rightarrow> Inl e
      | Inr va \<Rightarrow>
          (case getattr b n of
             Inl e \<Rightarrow> Inl e
           | Inr vb \<Rightarrow> if va \<noteq> vb then Inr True else attrs_differ a b ns))"

text \<open>
  \<^verbatim>\<open>Stimulus.__eq__\<close>: type, number of children, the attributes of \<^verbatim>\<open>self._attributes\<close>,
  then the children pairwise, stopping at the first difference. \<open>items_eq\<close> is the last
  loop; it is only reached with lists of equal length.
\<close>

fun stim_eq :: "stim \<Rightarrow> stim \<Rightarrow> error + bool"
  and items_eq :: "stim list \<Rightarrow> stim list \<Rightarrow> error + bool" where
  "stim_eq (Stim d st u du f its) b =
     (if type_of (Stim d st u du f its) \<noteq> type_of b then Inr False
      else if length its \<noteq> length (items b) then Inr False
      else
        (case attrs_differ (Stim d st u du f its) b (attributes (class_of f)) of
           Inl e \<Rightarrow> Inl e
         | Inr True \<Rightarrow> Inr False
         | Inr False \<Rightarrow> items_eq its (items b)))"
| "items_eq [] ys = Inr (ys = [])"
| "items_eq (x # xs) [] = Inr False"
| "items_eq (x # xs) (y # ys) =
     (case stim_eq x y of
        Inl e \<Rightarrow> Inl e
      | Inr False \<Rightarrow> Inr False
      | Inr True \<Rightarrow> items_eq xs ys)"

subsection \<open>Timing\<close>

text \<open>
  A node is addressed together with the chain its \<^verbatim>\<open>parent\<close> references lead through:
  \<open>anc\<close> lists the parent first, then the grandparent, up to the root. \<open>ancestry\<close> is the
  generator of the same name; \<open>global_start_time\<close> is its loop \<^verbatim>\<open>t = 0; t += item.start_time\<close>.
\<close>

definition ancestry :: "stim list \<Rightarrow> stim \<Rightarrow> stim list" where
  "ancestry anc s = s # anc"

definition global_start_time :: "stim list \<Rightarrow> stim \<Rightarrow> real" where
  "global_start_time anc s = foldl (\<lambda>t item. t + start_time item) 0 (ancestry anc s)"

definition global_end_time :: "stim list \<Rightarrow> stim \<Rightarrow> real" where
  "global_end_time anc s = global_start_time anc s + duration s"

definition end_time :: "stim \<Rightarrow> real" where
  "end_time s = start_time s + duration s"

definition total_duration :: "stim list \<Rightarrow> stim \<Rightarrow> real" where
  "total_duration anc s = global_end_time anc s - global_start_time anc s"

text \<open>Python's \<^verbatim>\<open>max\<close> of a list; the lists it is applied to here are never empty.\<close>

fun py_max :: "real list \<Rightarrow> real" where
  "py_max [] = 0"
| "py_max (x # xs) = foldl max x xs"

text \<open>
  \<^verbatim>\<open>max([self.global_end_time] + [item.total_global_end_time for item in self.items])\<close>;
  each child is reached with this node added to its chain.
\<close>

fun total_global_end_time :: "stim list \<Rightarrow> stim \<Rightarrow> real" where
  "total_global_end_time anc (Stim d st u du f its) =
     py_max (global_end_time anc (Stim d st u du f its) #
             map (total_global_end_time (Stim d st u du f its # anc)) its)"

text \<open>
  For stating what the extent of a subtree is: every node of the subtree of \<open>s\<close>, itself
  included, with its chain of ancestors.
\<close>

fun subtree :: "stim list \<Rightarrow> stim \<Rightarrow> (stim list \<times> stim) list" where
  "subtree anc (Stim d st u du f its) =
     (anc, Stim d st u du f its) #
     concat (map (subtree (Stim d st u du f its # anc)) its)"

subsection \<open>Constructors\<close>

text \<open>
  The \<^verbatim>\<open>__init__\<close> methods, with every default written out by the caller. Children
  passed as \<^verbatim>\<open>items\<close>, and pulses created with \<^verbatim>\<open>parent=self\<close>, are appended in order.
\<close>

definition Stimulus_init :: "string \<Rightarrow> real \<Rightarrow> string option \<Rightarrow> stim list \<Rightarrow> stim" where
  "Stimulus_init d st u its = Stim d st u 0 StimulusF its"

definition Offset_init :: "real \<Rightarrow> real \<Rightarrow> string \<Rightarrow> string option \<Rightarrow> stim" where
  "Offset_init amp st d u = Stim d st u 0 (OffsetF amp) []"

definition SquarePulse_init :: "real \<Rightarrow> real \<Rightarrow> real \<Rightarrow> string \<Rightarrow> string option \<Rightarrow> stim" where
  "SquarePulse_init st dur amp d u = Stim d st u dur (SquarePulseF amp None) []"

text \<open>\<^verbatim>\<open>pulse.pulse_number = i\<close>, an assignment to a pulse after it was created.\<close>

fun set_pulse_number :: "nat \<Rightarrow> stim \<Rightarrow> stim" where
  "set_pulse_number i (Stim d st u du (SquarePulseF a _) its) =
     Stim d st u du (SquarePulseF a (Some i)) its"
| "set_pulse_number i s = s"

text \<open>
  The pulses of a train: \<^verbatim>\<open>np.arange(n_pulses) * interval\<close> gives the start times (none
  when \<^verbatim>\<open>n_pulses\<close> is not positive); descriptions are the default of \<^verbatim>\<open>SquarePulse\<close>.
\<close>

definition train_pulses :: "int \<Rightarrow> real \<Rightarrow> real \<Rightarrow> real \<Rightarrow> string option \<Rightarrow> stim list" where
  "train_pulses n pd amp iv u =
     map (\<lambda>i. set_pulse_number i (SquarePulse_init (of_nat i * iv) pd amp ''square pulse'' u))
       [0 ..< nat n]"

definition SquarePulseTrain_init ::
  "real \<Rightarrow> int \<Rightarrow> real \<Rightarrow> real \<Rightarrow> real \<Rightarrow> string \<Rightarrow> string option \<Rightarrow> stim" where
  "SquarePulseTrain_init st n pd amp iv d u =
     Stim d st u 0 (SquarePulseTrainF n pd amp iv) (train_pulses n pd amp iv u)"

definition series_pulses ::
  "real list \<Rightarrow> real list \<Rightarrow> real list \<Rightarrow> string option \<Rightarrow> stim list" where
  "series_pulses ts ds as u =
     map (\<lambda>i. set_pulse_number i (SquarePulse_init (ts ! i) (ds ! i) (as ! i) ''square pulse'' u))
       [0 ..< length ts]"

text \<open>The assertion on the three lengths comes before anything is built.\<close>

definition SquarePulseSeries_init ::
  "real \<Rightarrow> real list \<Rightarrow> real list \<Rightarrow> real list \<Rightarrow> string \<Rightarrow> string option \<Rightarrow> error + stim" where
  "SquarePulseSeries_init st ts ds as d u =
     (if length ts = length ds \<and> length ds = length as
      then Inr (Stim d st u 0 (SquarePulseSeriesF ts ds as) (series_pulses ts ds as u))
      else Inl (AssertionError ''pulse_times, pulse_durations, amplitudes''))"

definition Ramp_init :: "real \<Rightarrow> real \<Rightarrow> real \<Rightarrow> real \<Rightarrow> string \<Rightarrow> string option \<Rightarrow> stim" where
  "Ramp_init st dur sl off d u = Stim d st u dur (RampF sl off) []"

definition Sine_init ::
  "real \<Rightarrow> real \<Rightarrow> real \<Rightarrow> real \<Rightarrow> real \<Rightarrow> real \<Rightarrow> string \<Rightarrow> string option \<Rightarrow> stim" where
  "Sine_init st dur f amp ph off d u = Stim d st u dur (SineF f amp ph off) []"

definition Chirp_init ::
  "real \<Rightarrow> real \<Rightarrow> real \<Rightarrow> real \<Rightarrow> real \<Rightarrow> real \<Rightarrow> real \<Rightarrow> string \<Rightarrow> string option \<Rightarrow> stim" where
  "Chirp_init st dur f0 f1 amp ph off d u = Stim d st u dur (ChirpF f0 f1 amp ph off) []"

definition Psp_init ::
  "real \<Rightarrow> real \<Rightarrow> real \<Rightarrow> real \<Rightarrow> real \<Rightarrow> string \<Rightarrow> string option \<Rightarrow> stim" where
  "Psp_init st rt dtau amp rp d u = Stim d st u 0 (PspF rt dtau amp rp) []"

subsection \<open>Saving\<close>

text \<open>
  A saved record \<^verbatim>\<open>{'type': .., 'args': {..}, 'items': [..]}\<close>. The \<^verbatim>\<open>args\<close> dictionary
  is an association list in insertion order; assigning to a key that is present replaces
  its value in place.
\<close>

type_synonym dict = "(string \<times> pyval) list"

datatype state = State (s_type: string) (s_args: dict) (s_items: "state list")

fun dict_set :: "dict \<Rightarrow> string \<Rightarrow> pyval \<Rightarrow> dict" where
  "dict_set [] k v = [(k, v)]"
| "dict_set ((k', v') # kvs) k v =
     (if k' = k then (k, v) # kvs else (k', v') # dict_set kvs k v)"

text \<open>
  \<^verbatim>\<open>_save_value\<close> turns numpy scalars into Python floats and ints of the same value;
  the model has one number type for each, so the value is unchanged.
\<close>

definition save_value :: "pyval \<Rightarrow> pyval" where
  "save_value v = v"

text \<open>The loop \<^verbatim>\<open>for name in self._attributes: state['args'][name] = ...\<close>.\<close>

fun save_attrs :: "stim \<Rightarrow> string list \<Rightarrow> dict \<Rightarrow> error + dict" where
  "save_attrs s [] args = Inr args"
| "save_attrs s (n # ns) args =
     (case getattr s n of
        Inl e \<Rightarrow> Inl e
      | Inr v \<Rightarrow> save_attrs s ns (dict_set args n (save_value v)))"

text \<open>
  \<^verbatim>\<open>Stimulus.save\<close>, and the overrides of \<^verbatim>\<open>SquarePulseTrain\<close> and
  \<^verbatim>\<open>SquarePulseSeries\<close>, which call it and then empty \<^verbatim>\<open>state['items']\<close>.
\<close>

fun save :: "stim \<Rightarrow> error + state"
  and save_items :: "stim list \<Rightarrow> error + state list" where
  "save (Stim d st u du f its) =
     (case save_attrs (Stim d st u du f its) (attributes (class_of f))
             [(''start_time'', PNum st)] of
        Inl e \<Rightarrow> Inl e
      | Inr args \<Rightarrow>
          (case save_items its of
             Inl e \<Rightarrow> Inl e
           | Inr sts \<Rightarrow>
               Inr (State (class_name (class_of f)) args
                      (if class_of f = SquarePulseTrain \<or> class_of f = SquarePulseSeries
                       then [] else sts))))"
| "save_items [] = Inr []"
| "save_items (x # xs) =
     (case save x of
        Inl e \<Rightarrow> Inl e
      | Inr sx \<Rightarrow> (case save_items xs of Inl e \<Rightarrow> Inl e | Inr sxs \<Rightarrow> Inr (sx # sxs)))"

subsection \<open>Loading\<close>

text \<open>
  \<^verbatim>\<open>get_stimulus_class\<close>: the registry holds \<^verbatim>\<open>Stimulus\<close> and its subclasses by name.
\<close>

definition all_classes :: "cls list" where
  "all_classes = [LazyLoadStimulus, Offset, SquarePulse, SquarePulseTrain, SquarePulseSeries,
     Ramp, Sine, Chirp, Psp, Stimulus]"

definition get_stimulus_class :: "string \<Rightarrow> error + cls" where
  "get_stimulus_class name =
     (case find (\<lambda>c. class_name c = name) all_classes of
        None \<Rightarrow> Inl (KeyError name)
      | Some c \<Rightarrow> Inr c)"

text \<open>Sequencing of calls that may raise.\<close>

definition bindE :: "error + 'a \<Rightarrow> ('a \<Rightarrow> error + 'b) \<Rightarrow> error + 'b" where
  "bindE m f = (case m of Inl e \<Rightarrow> Inl e | Inr x \<Rightarrow> f x)"

text \<open>
  Binding the keyword arguments \<^verbatim>\<open>**state['args']\<close> to the parameters of \<^verbatim>\<open>__init__\<close>.
  \<open>init_params\<close> lists the parameters that take attribute values; \<^verbatim>\<open>items\<close> is a
  parameter of \<^verbatim>\<open>Stimulus\<close> and \<^verbatim>\<open>LazyLoadStimulus\<close> only. A keyword that is no parameter
  is a \<^verbatim>\<open>TypeError\<close>, and so is a missing parameter without default. The parameters that
  take objects (\<^verbatim>\<open>parent\<close>, \<^verbatim>\<open>loader\<close>, \<^verbatim>\<open>source\<close>, and \<^verbatim>\<open>items\<close> inside \<^verbatim>\<open>args\<close>) are
  never written by \<^verbatim>\<open>save\<close>; the model has no attribute value for them and refuses them
  like unknown keywords, as it refuses a value of another type than the model's.
\<close>

fun init_params :: "cls \<Rightarrow> string list" where
  "init_params Stimulus = [''description'', ''start_time'', ''units'']"
| "init_params LazyLoadStimulus = [''description'', ''start_time'', ''units'']"
| "init_params Offset = [''amplitude'', ''start_time'', ''description'', ''units'']"
| "init_params SquarePulse =
     [''start_time'', ''duration'', ''amplitude'', ''description'', ''units'']"
| "init_params SquarePulseTrain =
     [''start_time'', ''n_pulses'', ''pulse_duration'', ''amplitude'', ''interval'',
      ''description'', ''units'']"
| "init_params SquarePulseSeries =
     [''start_time'', ''pulse_times'', ''pulse_durations'', ''amplitudes'', ''description'',
      ''units'']"
| "init_params Ramp =
     [''start_time'', ''duration'', ''slope'', ''offset'', ''description'', ''units'']"
| "init_params Sine =
     [''start_time'', ''duration'', ''frequency'', ''amplitude'', ''phase'', ''offset'',
      ''description'', ''units'']"
| "init_params Chirp =
     [''start_time'', ''duration'', ''start_frequency'', ''end_frequency'', ''amplitude'',
      ''phase'', ''offset'', ''description'', ''units'']"
| "init_params Psp =
     [''start_time'', ''rise_time'', ''decay_tau'', ''amplitude'', ''rise_power'',
      ''description'', ''units'']"

definition accepts_items :: "cls \<Rightarrow> bool" where
  "accepts_items c = (c = Stimulus \<or> c = LazyLoadStimulus)"

definition check_keywords :: "cls \<Rightarrow> stim list option \<Rightarrow> dict \<Rightarrow> error + unit" where
  "check_keywords c its args =
     (if its \<noteq> None \<and> \<not> accepts_items c then Inl (TypeError ''items'')
      else case find (\<lambda>k. k \<notin> set (init_params c)) (map fst args) of
             Some k \<Rightarrow> Inl (TypeError k)
           | None \<Rightarrow> Inr ())"

text \<open>A numeric, integer, string, units or list argument, with its default if it has one.\<close>

definition kw_num :: "dict \<Rightarrow> string \<Rightarrow> real option \<Rightarrow> error + real" where
  "kw_num args k dflt =
     (case map_of args k of
        None \<Rightarrow> (case dflt of None \<Rightarrow> Inl (TypeError k) | Some r \<Rightarrow> Inr r)
      | Some (PNum r) \<Rightarrow> Inr r
      | Some (PInt i) \<Rightarrow> Inr (of_int i)
      | Some _ \<Rightarrow> Inl (TypeError k))"

definition kw_int :: "dict \<Rightarrow> string \<Rightarrow> error + int" where
  "kw_int args k =
     (case map_of args k of
        Some (PInt i) \<Rightarrow> Inr i
      | _ \<Rightarrow> Inl (TypeError k))"

definition kw_str :: "dict \<Rightarrow> string \<Rightarrow> string option \<Rightarrow> error + string" where
  "kw_str args k dflt =
     (case map_of args k of
        None \<Rightarrow> (case dflt of None \<Rightarrow> Inl (TypeError k) | Some s \<Rightarrow> Inr s)
      | Some (PStr s) \<Rightarrow> Inr s
      | Some _ \<Rightarrow> Inl (TypeError k))"

definition kw_units :: "dict \<Rightarrow> error + string option" where
  "kw_units args =
     (case map_of args ''units'' of
        None \<Rightarrow> Inr None
      | Some PNone \<Rightarrow> Inr None
      | Some (PStr s) \<Rightarrow> Inr (Some s)
      | Some _ \<Rightarrow> Inl (TypeError ''units''))"

definition kw_list :: "dict \<Rightarrow> string \<Rightarrow> error + real list" where
  "kw_list args k =
     (case map_of args k of
        Some (PList xs) \<Rightarrow> Inr xs
      | _ \<Rightarrow> Inl (TypeError k))"

text \<open>
  \<^verbatim>\<open>item_class(items=child_items, **args)\<close> when \<open>its\<close> is given, \<^verbatim>\<open>item_class(**args)\<close>
  otherwise. \<^verbatim>\<open>LazyLoadStimulus.__init__\<close> raises as soon as its arguments are bound,
  since no loader is passed.
\<close>

definition construct :: "cls \<Rightarrow> stim list option \<Rightarrow> dict \<Rightarrow> error + stim" where
  "construct c its args =
     bindE (check_keywords c its args) (\<lambda>_.
     bindE (kw_units args) (\<lambda>u.
       case c of
         Stimulus \<Rightarrow>
           bindE (kw_str args ''description'' (Some ''stimulus'')) (\<lambda>d.
           bindE (kw_num args ''start_time'' (Some 0)) (\<lambda>st.
             Inr (Stimulus_init d st u (case its of None \<Rightarrow> [] | Some xs \<Rightarrow> xs))))
       | LazyLoadStimulus \<Rightarrow>
           bindE (kw_str args ''description'' None) (\<lambda>d.
           bindE (kw_num args ''start_time'' (Some 0)) (\<lambda>st.
             Inl (Exception
               ''Use of a LazyLoadStimulus requires a loader to be specified upon init.'')))
       | Offset \<Rightarrow>
           bindE (kw_num args ''amplitude'' None) (\<lambda>amp.
           bindE (kw_num args ''start_time'' (Some 0)) (\<lambda>st.
           bindE (kw_str args ''description'' (Some ''offset'')) (\<lambda>d.
             Inr (Offset_init amp st d u))))
       | SquarePulse \<Rightarrow>
           bindE (kw_num args ''start_time'' None) (\<lambda>st.
           bindE (kw_num args ''duration'' None) (\<lambda>dur.
           bindE (kw_num args ''amplitude'' None) (\<lambda>amp.
           bindE (kw_str args ''description'' (Some ''square pulse'')) (\<lambda>d.
             Inr (SquarePulse_init st dur amp d u)))))
       | SquarePulseTrain \<Rightarrow>
           bindE (kw_num args ''start_time'' None) (\<lambda>st.
           bindE (kw_int args ''n_pulses'') (\<lambda>n.
           bindE (kw_num args ''pulse_duration'' None) (\<lambda>pd.
           bindE (kw_num args ''amplitude'' None) (\<lambda>amp.
           bindE (kw_num args ''interval'' None) (\<lambda>iv.
           bindE (kw_str args ''description'' (Some ''square pulse train'')) (\<lambda>d.
             Inr (SquarePulseTrain_init st n pd amp iv d u)))))))
       | SquarePulseSeries \<Rightarrow>
           bindE (kw_num args ''start_time'' None) (\<lambda>st.
           bindE (kw_list args ''pulse_times'') (\<lambda>ts.
           bindE (kw_list args ''pulse_durations'') (\<lambda>ds.
           bindE (kw_list args ''amplitudes'') (\<lambda>as.
           bindE (kw_str args ''description'' (Some ''square pulse train'')) (\<lambda>d.
             SquarePulseSeries_init st ts ds as d u)))))
       | Ramp \<Rightarrow>
           bindE (kw_num args ''start_time'' None) (\<lambda>st.
           bindE (kw_num args ''duration'' None) (\<lambda>dur.
           bindE (kw_num args ''slope'' None) (\<lambda>sl.
           bindE (kw_num args ''offset'' (Some 0)) (\<lambda>off.
           bindE (kw_str args ''description'' (Some ''linear ramp'')) (\<lambda>d.
             Inr (Ramp_init st dur sl off d u))))))
       | Sine \<Rightarrow>
           bindE (kw_num args ''start_time'' None) (\<lambda>st.
           bindE (kw_num args ''duration'' None) (\<lambda>dur.
           bindE (kw_num args ''frequency'' None) (\<lambda>f.
           bindE (kw_num args ''amplitude'' None) (\<lambda>amp.
           bindE (kw_num args ''phase'' (Some 0)) (\<lambda>ph.
           bindE (kw_num args ''offset'' (Some 0)) (\<lambda>off.
           bindE (kw_str args ''description'' (Some ''sine wave'')) (\<lambda>d.
             Inr (Sine_init st dur f amp ph off d u))))))))
       | Chirp \<Rightarrow>
           bindE (kw_num args ''start_time'' None) (\<lambda>st.
           bindE (kw_num args ''duration'' None) (\<lambda>dur.
           bindE (kw_num args ''start_frequency'' None) (\<lambda>f0.
           bindE (kw_num args ''end_frequency'' None) (\<lambda>f1.
           bindE (kw_num args ''amplitude'' None) (\<lambda>amp.
           bindE (kw_num args ''phase'' (Some 0)) (\<lambda>ph.
           bindE (kw_num args ''offset'' (Some 0)) (\<lambda>off.
           bindE (kw_str args ''description'' (Some ''frequency chirp'')) (\<lambda>d.
             Inr (Chirp_init st dur f0 f1 amp ph off d u)))))))))
       | Psp \<Rightarrow>
           bindE (kw_num args ''start_time'' None) (\<lambda>st.
           bindE (kw_num args ''rise_time'' None) (\<lambda>rt.
           bindE (kw_num args ''decay_tau'' None) (\<lambda>dtau.
           bindE (kw_num args ''amplitude'' None) (\<lambda>amp.
           bindE (kw_num args ''rise_power'' (Some 2)) (\<lambda>rp.
           bindE (kw_str args ''description'' (Some ''frequency chirp'')) (\<lambda>d.
             Inr (Psp_init st rt dtau amp rp d u)))))))))"

text \<open>
  \<^verbatim>\<open>Stimulus.load\<close> (and \<^verbatim>\<open>load_stimulus\<close>, which only calls it): the class is looked up
  first, then the children are loaded, then the instance is built, with \<^verbatim>\<open>items\<close> only
  when there are children.
\<close>

fun load :: "state \<Rightarrow> error + stim"
  and load_items :: "state list \<Rightarrow> error + stim list" where
  "load (State t args sts) =
     (case get_stimulus_class t of
        Inl e \<Rightarrow> Inl e
      | Inr c \<Rightarrow>
          (case load_items sts of
             Inl e \<Rightarrow> Inl e
           | Inr child_items \<Rightarrow>
               if length child_items > 0 then construct c (Some child_items) args
               else construct c None args))"
| "load_items [] = Inr []"
| "load_items (s # ss) =
     (case load s of
        Inl e \<Rightarrow> Inl e
      | Inr x \<Rightarrow> (case load_items ss of Inl e \<Rightarrow> Inl e | Inr xs \<Rightarrow> Inr (x # xs)))"

definition load_stimulus :: "state \<Rightarrow> error + stim" where
  "load_stimulus st = load st"

subsection \<open>Trees that can be saved and loaded again\<close>




subsection \<open>Chirp\<close>

text \<open>
  Float operations that need not give a finite number return \<open>None\<close> where they do not:
  \<^verbatim>\<open>np.log\<close> of zero or of a negative number (\<^verbatim>\<open>-inf\<close>, \<^verbatim>\<open>nan\<close>) and division by zero
  (\<^verbatim>\<open>inf\<close>, \<^verbatim>\<open>nan\<close>, or \<^verbatim>\<open>ZeroDivisionError\<close> between Python floats). On finite values
  the arithmetic is exact. In \<^verbatim>\<open>frequency_at\<close> every such value ends in \<^verbatim>\<open>nan\<close>, since the
  product contains both \<^verbatim>\<open>k\<close> and \<^verbatim>\<open>np.log(r)\<close>.
\<close>

definition np_log :: "real \<Rightarrow> real option" where
  "np_log x = (if 0 < x then Some (ln x) else None)"

definition fdiv :: "real \<Rightarrow> real \<Rightarrow> real option" where
  "fdiv x y = (if y = 0 then None else Some (x / y))"

text \<open>\<^verbatim>\<open>Chirp._kr\<close>, \<^verbatim>\<open>Chirp.frequency_at\<close> and \<^verbatim>\<open>Chirp.phase_at\<close> at a time \<open>t\<close>.\<close>

definition Chirp_kr :: "stim \<Rightarrow> real option \<times> real" where
  "Chirp_kr s =
     (let f0 = start_frequency (params s); f1 = end_frequency (params s);
          r = (if f0 = 0 then 0 else f1 / f0);
          k = Option.bind (np_log r) (\<lambda>l. fdiv (2 * pi * duration s * f0) l)
      in (k, r))"

definition frequency_at :: "stim \<Rightarrow> real \<Rightarrow> real option" where
  "frequency_at s t =
     (let (k, r) = Chirp_kr s; d = duration s in
      Option.bind k (\<lambda>k.
      Option.bind (np_log r) (\<lambda>l.
      Option.bind (fdiv t d) (\<lambda>e.
        fdiv (k * l * r powr e) (2 * pi * d)))))"

definition phase_at :: "stim \<Rightarrow> real \<Rightarrow> real option" where
  "phase_at s t =
     (let (k, r) = Chirp_kr s in
      Option.bind k (\<lambda>k.
      Option.bind (fdiv t (duration s)) (\<lambda>e.
        Some (phase (params s) - k + k * r powr e))))"

subsection \<open>Sampled signals\<close>

text \<open>
  \<^verbatim>\<open>TSeries\<close> (module \<^verbatim>\<open>neuroanalysis.data\<close>) is not part of the sources. A series is
  modelled by the arguments its constructor is called with: the samples, the four
  arguments that describe the time axis, and the units.
\<close>

record timing =
  ts_t0 :: "real option"
  ts_dt :: "real option"
  ts_sample_rate :: "real option"
  ts_time_values :: "real list option"

record tseries =
  ts_data :: "real list"
  ts_timing :: timing
  ts_units :: "string option"

text \<open>\<^verbatim>\<open>TSeries(data, t0=.., dt=.., sample_rate=.., time_values=.., units=..)\<close>.\<close>

definition TSeries ::
  "real list \<Rightarrow> real option \<Rightarrow> real option \<Rightarrow> real option \<Rightarrow> real list option \<Rightarrow>
   string option \<Rightarrow> tseries" where
  "TSeries xs t0 dt sample_rate time_values u =
     \<lparr>ts_data = xs,
      ts_timing = \<lparr>ts_t0 = t0, ts_dt = dt, ts_sample_rate = sample_rate,
                   ts_time_values = time_values\<rparr>,
      ts_units = u\<rparr>"

datatype index_mode = Round | Floor | Ceil

text \<open>
  The methods of \<^verbatim>\<open>TSeries\<close> that read the time axis, and the other two things the module
  takes from outside, are parameters of the model. They are functions of the time axis
  and the number of samples, not of the sample values:
  \<^item> \<open>index_at\<close>: \<^verbatim>\<open>trace.index_at(t, index_mode=m)\<close>;
  \<^item> \<open>time_slice\<close>: the bounds \<open>(i1, i2)\<close> of the view \<^verbatim>\<open>trace.time_slice(t1, t2, index_mode=m)\<close>,
    which is \<^verbatim>\<open>trace[i1:i2]\<close>;
  \<^item> \<open>time_at\<close>: \<^verbatim>\<open>trace.time_at(i)\<close>, also the \<open>i\<close>-th of \<^verbatim>\<open>trace.time_values\<close>;
  \<^item> \<open>dt_of\<close>: \<^verbatim>\<open>trace.dt\<close>;
  \<^item> \<open>psp_func\<close>: \<^verbatim>\<open>psp.Psp.psp_func\<close> at one time point, with arguments \<^verbatim>\<open>x\<close>,
    \<^verbatim>\<open>xoffset\<close>, \<^verbatim>\<open>yoffset\<close>, \<^verbatim>\<open>rise_time\<close>, \<^verbatim>\<open>decay_tau\<close>, \<^verbatim>\<open>amp\<close>, \<^verbatim>\<open>rise_power\<close>;
  \<^item> \<open>add\<close>: the addition of two samples that \<^verbatim>\<open>+=\<close> performs on the buffer.
\<close>

record ts_ops =
  index_at :: "timing \<Rightarrow> nat \<Rightarrow> real \<Rightarrow> index_mode option \<Rightarrow> int"
  time_slice :: "timing \<Rightarrow> nat \<Rightarrow> real \<Rightarrow> real \<Rightarrow> index_mode option \<Rightarrow> nat \<times> nat"
  time_at :: "timing \<Rightarrow> nat \<Rightarrow> real"
  dt_of :: "timing \<Rightarrow> real"
  psp_func :: "real \<Rightarrow> real \<Rightarrow> real \<Rightarrow> real \<Rightarrow> real \<Rightarrow> real \<Rightarrow> real \<Rightarrow> real"
  add :: "real \<Rightarrow> real \<Rightarrow> real"

subsection \<open>Pulse detection in noise-free data\<close>

text \<open>\<^verbatim>\<open>np.diff\<close> of a one-dimensional array.\<close>

fun np_diff :: "real list \<Rightarrow> real list" where
  "np_diff (x # y # xs) = (y - x) # np_diff (y # xs)"
| "np_diff _ = []"

text \<open>\<^verbatim>\<open>np.argwhere(cond)[:, 0]\<close>: the indices at which the condition holds, ascending.\<close>

definition argwhere :: "('a \<Rightarrow> bool) \<Rightarrow> 'a list \<Rightarrow> nat list" where
  "argwhere P xs = filter (\<lambda>i. P (xs ! i)) [0 ..< length xs]"

definition enumerate_list :: "'a list \<Rightarrow> (nat \<times> 'a) list" where
  "enumerate_list xs = zip [0 ..< length xs] xs"

text \<open>
  \<^verbatim>\<open>stop = changes[i+1] if (i+1 < len(changes)) else len(trace)\<close>.
\<close>

definition stop_of :: "nat list \<Rightarrow> nat \<Rightarrow> nat \<Rightarrow> nat" where
  "stop_of changes n i = (if i + 1 < length changes then changes ! (i + 1) else n)"

text \<open>
  The pulse \<^verbatim>\<open>find_square_pulses\<close> appends for the boundary \<open>start\<close>, the \<open>i\<close>-th of
  \<open>changes\<close>, with its \<^verbatim>\<open>pulse_number\<close>.
\<close>

definition found_pulse :: "ts_ops \<Rightarrow> tseries \<Rightarrow> real \<Rightarrow> nat list \<Rightarrow> nat \<Rightarrow> nat \<Rightarrow> stim" where
  "found_pulse X trace baseline changes i start =
     set_pulse_number i
       (SquarePulse_init
          (time_at X (ts_timing trace) start)
          (of_int (int (stop_of changes (length (ts_data trace)) i) - int start) *
             dt_of X (ts_timing trace))
          (ts_data trace ! start - baseline)
          ''square pulse'' (ts_units trace))"

text \<open>The loop over \<^verbatim>\<open>enumerate(changes)\<close>, with \<^verbatim>\<open>pulses\<close> as accumulator.\<close>

fun find_loop ::
  "ts_ops \<Rightarrow> tseries \<Rightarrow> real \<Rightarrow> nat list \<Rightarrow> (nat \<times> nat) list \<Rightarrow> stim list \<Rightarrow> stim list" where
  "find_loop X trace baseline changes [] pulses = pulses"
| "find_loop X trace baseline changes ((i, start) # rest) pulses =
     (if ts_data trace ! start - baseline \<noteq> 0
      then find_loop X trace baseline changes rest
             (pulses @ [found_pulse X trace baseline changes i start])
      else find_loop X trace baseline changes rest pulses)"

definition changes_of :: "real list \<Rightarrow> nat list" where
  "changes_of xs = map Suc (argwhere (\<lambda>d. d \<noteq> 0) (np_diff xs))"

text \<open>
  \<^verbatim>\<open>find_square_pulses(trace, baseline)\<close>. The argument is a series by its type, so the
  \<^verbatim>\<open>isinstance\<close> check passes; \<^verbatim>\<open>trace.data[0]\<close> raises on an empty series.
\<close>

definition find_square_pulses :: "ts_ops \<Rightarrow> tseries \<Rightarrow> real option \<Rightarrow> error + stim list" where
  "find_square_pulses X trace baseline =
     (case (case baseline of
              Some b \<Rightarrow> Inr b
            | None \<Rightarrow> (case ts_data trace of [] \<Rightarrow> Inl (IndexError ''data'') | x # _ \<Rightarrow> Inr x)) of
        Inl e \<Rightarrow> Inl e
      | Inr b \<Rightarrow>
          Inr (find_loop X trace b (changes_of (ts_data trace))
                 (enumerate_list (changes_of (ts_data trace))) []))"

subsection \<open>A regularly sampled time axis\<close>

text \<open>
  Modelled from the spec: the methods of \<^verbatim>\<open>TSeries\<close>, which is not among the sources, for
  a series built from a start time, a sample count and a step or rate (section 6: convert
  a time to a sample index under a rounding policy, slice a time range into a view). The
  step is \<^verbatim>\<open>dt\<close> if given, else the inverse of \<^verbatim>\<open>sample_rate\<close>; sample \<open>i\<close> is at
  \<open>t0 + i * dt\<close>; a time is converted to \<open>(t - t0) / dt\<close>, rounded to the nearest integer,
  down or up; a time slice runs between the two converted bounds, none below 0. What a
  series built without start time does is not said, and left open here (\<open>the None\<close>).
  Series built from explicit time values are not covered.
\<close>

definition regular_dt :: "timing \<Rightarrow> real" where
  "regular_dt tm = (case ts_dt tm of Some d \<Rightarrow> d | None \<Rightarrow> 1 / the (ts_sample_rate tm))"

definition regular_time_at :: "timing \<Rightarrow> nat \<Rightarrow> real" where
  "regular_time_at tm i = the (ts_t0 tm) + of_nat i * regular_dt tm"

definition regular_index_at :: "timing \<Rightarrow> nat \<Rightarrow> real \<Rightarrow> index_mode option \<Rightarrow> int" where
  "regular_index_at tm n t m =
     (let x = (t - the (ts_t0 tm)) / regular_dt tm in
      case m of
        Some Floor \<Rightarrow> \<lfloor>x\<rfloor>
      | Some Ceil \<Rightarrow> \<lceil>x\<rceil>
      | _ \<Rightarrow> round x)"

definition regular_time_slice ::
  "timing \<Rightarrow> nat \<Rightarrow> real \<Rightarrow> real \<Rightarrow> index_mode option \<Rightarrow> nat \<times> nat" where
  "regular_time_slice tm n t1 t2 m =
     (nat (regular_index_at tm n t1 m), nat (regular_index_at tm n t2 m))"

text \<open>
  The operations on a regular axis, with exact addition of samples. \<^verbatim>\<open>psp_func\<close> is not
  among the sources either and is given no value here (no statement below evaluates it).
\<close>

definition regular_ops :: "(real \<Rightarrow> real \<Rightarrow> real \<Rightarrow> real \<Rightarrow> real \<Rightarrow> real \<Rightarrow> real \<Rightarrow> real) \<Rightarrow> ts_ops" where
  "regular_ops psp =
     \<lparr>index_at = regular_index_at, time_slice = regular_time_slice,
      time_at = regular_time_at, dt_of = regular_dt, psp_func = psp, add = (+)\<rparr>"

subsection \<open>Pulse detection in noisy data\<close>












subsection \<open>Evaluation\<close>

text \<open>
  The buffer operations. \<open>update_window f i1 i2 xs\<close> is an in-place elementwise update of
  the view \<^verbatim>\<open>xs[i1:i2]\<close>: the sample at position \<open>j\<close> of the view becomes \<open>f\<close> of its old
  value and \<open>j\<close>. \<open>py_start n i\<close> is where the slice \<^verbatim>\<open>xs[i:]\<close> of a buffer of \<open>n\<close> samples
  starts; a negative \<open>i\<close> counts from the end.
\<close>

definition update_window :: "(real \<Rightarrow> nat \<Rightarrow> real) \<Rightarrow> nat \<Rightarrow> nat \<Rightarrow> real list \<Rightarrow> real list" where
  "update_window f i1 i2 xs =
     map (\<lambda>i. if i1 \<le> i \<and> i < i2 then f (xs ! i) (i - i1) else xs ! i) [0 ..< length xs]"

definition py_start :: "nat \<Rightarrow> int \<Rightarrow> nat" where
  "py_start n i = (if i < 0 then nat (max 0 (int n + i)) else min (nat i) n)"

text \<open>\<^verbatim>\<open>Sine.phase_at\<close>.\<close>

definition Sine_phase_at :: "stim \<Rightarrow> real \<Rightarrow> real" where
  "Sine_phase_at s t = phase (params s) + t * (2 * pi * frequency (params s))"

text \<open>
  What the \<^verbatim>\<open>eval\<close> of a subclass does after \<^verbatim>\<open>trace = Stimulus.eval(self, **kwds)\<close>;
  \<open>m\<close> is \<^verbatim>\<open>kwds.get('index_mode')\<close>. The classes without an \<^verbatim>\<open>eval\<close> of their own add
  nothing. The times of a view are those of its samples in the series; for a chirp whose
  constants are not finite numpy adds \<^verbatim>\<open>nan\<close>, for which the model has no value of its own
  (\<open>the None\<close>).
\<close>

definition own_eval :: "ts_ops \<Rightarrow> stim list \<Rightarrow> stim \<Rightarrow> index_mode option \<Rightarrow> tseries \<Rightarrow> tseries" where
  "own_eval X anc s m trace =
     (let tm = ts_timing trace; xs = ts_data trace; n = length xs;
          start = global_start_time anc s;
          (i1, i2) = time_slice X tm n start (start + duration s) m
      in case params s of
           OffsetF a \<Rightarrow>
             trace\<lparr>ts_data :=
               update_window (\<lambda>x j. add X x a) (py_start n (index_at X tm n start m)) n xs\<rparr>
         | SquarePulseF a _ \<Rightarrow>
             trace\<lparr>ts_data := update_window (\<lambda>x j. add X x a) i1 i2 xs\<rparr>
         | RampF sl off \<Rightarrow>
             trace\<lparr>ts_data := update_window (\<lambda>x j. add X x (of_nat j * sl + off)) i1 i2 xs\<rparr>
         | SineF f a ph off \<Rightarrow>
             trace\<lparr>ts_data :=
               update_window
                 (\<lambda>x j. add X x (a * sin (Sine_phase_at s (time_at X tm (i1 + j) - start))))
                 i1 i2
                 (update_window (\<lambda>x j. add X x off) i1 i2 xs)\<rparr>
         | ChirpF f0 f1 a ph off \<Rightarrow>
             trace\<lparr>ts_data :=
               update_window
                 (\<lambda>x j. add X x (a * sin (the (phase_at s (time_at X tm (i1 + j) - start)))))
                 i1 i2
                 (update_window (\<lambda>x j. add X x off) i1 i2 xs)\<rparr>
         | PspF rt dtau a rp \<Rightarrow>
             trace\<lparr>ts_data :=
               update_window
                 (\<lambda>x j. add X x (psp_func X (time_at X tm (i1 + j)) start 0 rt dtau a rp))
                 i1 i2 xs\<rparr>
         | _ \<Rightarrow> trace)"

text \<open>
  The same for \<^verbatim>\<open>mask\<close>: the window is assigned \<^verbatim>\<open>True\<close>, which a numeric buffer stores
  as 1.
\<close>

definition own_mask :: "ts_ops \<Rightarrow> stim list \<Rightarrow> stim \<Rightarrow> index_mode option \<Rightarrow> tseries \<Rightarrow> tseries" where
  "own_mask X anc s m trace =
     (let tm = ts_timing trace; xs = ts_data trace; n = length xs;
          start = global_start_time anc s;
          (i1, i2) = time_slice X tm n start (start + duration s) m
      in case params s of
           OffsetF a \<Rightarrow>
             trace\<lparr>ts_data :=
               update_window (\<lambda>x j. 1) (py_start n (index_at X tm n start m)) n xs\<rparr>
         | SquarePulseF a _ \<Rightarrow> trace\<lparr>ts_data := update_window (\<lambda>x j. 1) i1 i2 xs\<rparr>
         | RampF sl off \<Rightarrow> trace\<lparr>ts_data := update_window (\<lambda>x j. 1) i1 i2 xs\<rparr>
         | SineF f a ph off \<Rightarrow> trace\<lparr>ts_data := update_window (\<lambda>x j. 1) i1 i2 xs\<rparr>
         | ChirpF f0 f1 a ph off \<Rightarrow> trace\<lparr>ts_data := update_window (\<lambda>x j. 1) i1 i2 xs\<rparr>
         | PspF rt dtau a rp \<Rightarrow> trace\<lparr>ts_data := update_window (\<lambda>x j. 1) i1 i2 xs\<rparr>
         | _ \<Rightarrow> trace)"

text \<open>
  A call \<^verbatim>\<open>item.eval(trace=trace, index_mode=..)\<close> on a given buffer: \<^verbatim>\<open>Stimulus.eval\<close>
  returns the buffer from \<^verbatim>\<open>_make_eval_trace\<close> and evaluates the children in order, passing
  its \<^verbatim>\<open>index_mode\<close> (\<^verbatim>\<open>'round'\<close> unless given); then the subclass adds its own part.
\<close>

fun eval_node :: "ts_ops \<Rightarrow> stim list \<Rightarrow> stim \<Rightarrow> index_mode option \<Rightarrow> tseries \<Rightarrow> tseries"
  and eval_items :: "ts_ops \<Rightarrow> stim list \<Rightarrow> stim list \<Rightarrow> index_mode \<Rightarrow> tseries \<Rightarrow> tseries" where
  "eval_node X anc (Stim d st u du f its) m trace =
     own_eval X anc (Stim d st u du f its) m
       (eval_items X (Stim d st u du f its # anc) its
          (case m of None \<Rightarrow> Round | Some m' \<Rightarrow> m') trace)"
| "eval_items X anc [] m trace = trace"
| "eval_items X anc (c # cs) m trace = eval_items X anc cs m (eval_node X anc c (Some m) trace)"

fun mask_node :: "ts_ops \<Rightarrow> stim list \<Rightarrow> stim \<Rightarrow> index_mode option \<Rightarrow> tseries \<Rightarrow> tseries"
  and mask_items :: "ts_ops \<Rightarrow> stim list \<Rightarrow> stim list \<Rightarrow> index_mode \<Rightarrow> tseries \<Rightarrow> tseries" where
  "mask_node X anc (Stim d st u du f its) m trace =
     own_mask X anc (Stim d st u du f its) m
       (mask_items X (Stim d st u du f its # anc) its
          (case m of None \<Rightarrow> Round | Some m' \<Rightarrow> m') trace)"
| "mask_items X anc [] m trace = trace"
| "mask_items X anc (c # cs) m trace = mask_items X anc cs m (mask_node X anc c (Some m) trace)"

text \<open>The keyword arguments of \<^verbatim>\<open>eval\<close> and \<^verbatim>\<open>mask\<close>; \<open>None\<close> is an argument not given.\<close>

record eval_args =
  arg_time_values :: "real list option"
  arg_n_pts :: "nat option"
  arg_dt :: "real option"
  arg_sample_rate :: "real option"
  arg_t0 :: "real option"
  arg_trace :: "tseries option"
  arg_index_mode :: "index_mode option"

text \<open>\<^verbatim>\<open>Stimulus._make_eval_trace\<close>; \<^verbatim>\<open>np.zeros(n)\<close> is \<open>replicate n 0\<close>.\<close>

definition make_eval_trace ::
  "stim \<Rightarrow> tseries option \<Rightarrow> real option \<Rightarrow> nat option \<Rightarrow> real option \<Rightarrow> real option \<Rightarrow>
   real list option \<Rightarrow> error + tseries" where
  "make_eval_trace s trace t0 n_pts dt sample_rate time_values =
     (case trace of
        Some tr \<Rightarrow> Inr tr
      | None \<Rightarrow>
          (case time_values of
             Some tv \<Rightarrow>
               Inr (TSeries (replicate (length tv) 0) t0 dt sample_rate (Some tv) (units s))
           | None \<Rightarrow>
               (case n_pts of
                  None \<Rightarrow> Inl (AssertionError ''Must specify n_pts, time_values, or trace.'')
                | Some n \<Rightarrow>
                    Inr (TSeries (replicate n 0) t0 dt sample_rate None (units s)))))"

text \<open>
  \<^verbatim>\<open>s.eval(**kw)\<close> and \<^verbatim>\<open>s.mask(**kw)\<close> as a caller invokes them on a node \<open>s\<close> with
  ancestors \<open>anc\<close>. \<^verbatim>\<open>Stimulus.eval\<close> replaces a missing \<^verbatim>\<open>t0\<close> by 0 when no time values
  are given, before it makes the buffer; \<^verbatim>\<open>Stimulus.mask\<close> passes \<^verbatim>\<open>t0\<close> as it is.
\<close>

definition eval :: "ts_ops \<Rightarrow> stim list \<Rightarrow> stim \<Rightarrow> eval_args \<Rightarrow> error + tseries" where
  "eval X anc s kw =
     (let t0 = (if arg_time_values kw = None \<and> arg_t0 kw = None then Some 0 else arg_t0 kw)
      in case make_eval_trace s (arg_trace kw) t0 (arg_n_pts kw) (arg_dt kw)
                (arg_sample_rate kw) (arg_time_values kw) of
           Inl e \<Rightarrow> Inl e
         | Inr trace \<Rightarrow> Inr (eval_node X anc s (arg_index_mode kw) trace))"

definition mask :: "ts_ops \<Rightarrow> stim list \<Rightarrow> stim \<Rightarrow> eval_args \<Rightarrow> error + tseries" where
  "mask X anc s kw =
     (case make_eval_trace s (arg_trace kw) (arg_t0 kw) (arg_n_pts kw) (arg_dt kw)
             (arg_sample_rate kw) (arg_time_values kw) of
        Inl e \<Rightarrow> Inl e
      | Inr trace \<Rightarrow> Inr (mask_node X anc s (arg_index_mode kw) trace))"


subsection \<open>Arithmetic of the buffer\<close>


text \<open>
  For the proofs: a buffer update that folds, into every sample, a list of addends that
  depends on the time axis, the number of samples and the index, not on the samples.
\<close>

definition accumulate ::
  "(real \<Rightarrow> real \<Rightarrow> real) \<Rightarrow> (timing \<Rightarrow> nat \<Rightarrow> nat \<Rightarrow> real list) \<Rightarrow> tseries \<Rightarrow> tseries" where
  "accumulate f A trace =
     trace\<lparr>ts_data :=
       map (\<lambda>i. foldl f (ts_data trace ! i) (A (ts_timing trace) (length (ts_data trace)) i))
         [0 ..< length (ts_data trace)]\<rparr>"





subsection \<open>The signal of one pulse\<close>


section \<open>Properties\<close>

subsection \<open>Equality of base nodes\<close>

lemma attrs_differ_base:
  "attrs_differ (Stim d st u du1 StimulusF its) (Stim d st u du2 StimulusF its')
     Stimulus_attributes = Inr False"
  by (simp add: Stimulus_attributes_def getattr_def)

text \<open>
  C10. \<^verbatim>\<open>Stimulus.__eq__\<close> reads only the names of \<^verbatim>\<open>_attributes\<close>, which for the base
  class are description, start_time and units. Two base nodes with the same description,
  start time and units and pairwise equal children compare equal, whatever their
  \<^verbatim>\<open>duration\<close> attributes are.
\<close>

theorem base_eq_ignores_duration:
  "attributes Stimulus = [''description'', ''start_time'', ''units''] \<and>
   (items_eq its its' = Inr True \<longrightarrow>
      stim_eq (Stim d st u du1 StimulusF its) (Stim d st u du2 StimulusF its') = Inr True)"
proof -
  have len: "length its = length its'" if "items_eq its its' = Inr True"
    using that
  proof (induction its arbitrary: its')
    case Nil
    then show ?case by simp
  next
    case (Cons x xs)
    then show ?case
      by (cases its') (auto split: sum.splits bool.splits)
  qed
  show ?thesis
    using len attrs_differ_base [of d st u du1 its du2 its']
    by (auto simp: type_of_def Stimulus_attributes_def)
qed

theorem base_eq_ignores_duration_witness:
  "items_eq [Stim ''pulse'' 1 None 2 (SquarePulseF 3 None) []]
            [Stim ''pulse'' 1 None 2 (SquarePulseF 3 None) []] = Inr True \<and>
   stim_eq (Stim ''stimulus'' 0 (Some ''A'') 0 StimulusF
              [Stim ''pulse'' 1 None 2 (SquarePulseF 3 None) []])
           (Stim ''stimulus'' 0 (Some ''A'') 5 StimulusF
              [Stim ''pulse'' 1 None 2 (SquarePulseF 3 None) []]) = Inr True"
proof -
  have h: "items_eq [Stim ''pulse'' 1 None 2 (SquarePulseF 3 None) []]
            [Stim ''pulse'' 1 None 2 (SquarePulseF 3 None) []] = Inr True"
    by (simp add: type_of_def Stimulus_attributes_def getattr_def duration_def)
  show ?thesis
    using h base_eq_ignores_duration [of "[Stim ''pulse'' 1 None 2 (SquarePulseF 3 None) []]"
        "[Stim ''pulse'' 1 None 2 (SquarePulseF 3 None) []]" "''stimulus''" 0 "Some ''A''" 0 5]
    by blast
qed

subsection \<open>Extent of a subtree\<close>

lemma py_max_Max: "py_max (x # xs) = Max (set (x # xs))"
proof -
  have "foldl max x xs = fold max xs x"
    by (simp add: foldl_conv_fold max.commute)
  then show ?thesis using Max.set_eq_fold [of x xs] by simp
qed

lemma subtree_nonempty: "subtree anc s \<noteq> []"
  by (cases s) simp

lemma Max_concat:
  assumes "\<forall>l \<in> set ls. l \<noteq> []"
  shows "Max (set (x # map (\<lambda>l. Max (set l)) ls)) = Max (set (x # concat ls))"
  using assms
proof (induction ls arbitrary: x)
  case Nil
  then show ?case by simp
next
  case (Cons l ls)
  have l: "l \<noteq> []" using Cons.prems by simp
  have "Max (set (x # map (\<lambda>l. Max (set l)) (l # ls))) =
        max (Max (set l)) (Max (set (x # map (\<lambda>l. Max (set l)) ls)))"
  proof -
    have "set (x # map (\<lambda>l. Max (set l)) (l # ls)) =
          insert (Max (set l)) (set (x # map (\<lambda>l. Max (set l)) ls))"
      by auto
    moreover have "Max (insert (Max (set l)) (set (x # map (\<lambda>l. Max (set l)) ls))) =
          max (Max (set l)) (Max (set (x # map (\<lambda>l. Max (set l)) ls)))"
      by (rule Max_insert) auto
    ultimately show ?thesis by simp
  qed
  also have "\<dots> = max (Max (set l)) (Max (set (x # concat ls)))"
    using Cons by simp
  also have "\<dots> = Max (set l \<union> set (x # concat ls))"
    using l by (subst Max_Un) auto
  also have "set l \<union> set (x # concat ls) = set (x # concat (l # ls))"
    by auto
  finally show ?case .
qed

text \<open>
  \<^verbatim>\<open>total_global_end_time\<close> is the largest \<^verbatim>\<open>global_end_time\<close> among the node and all
  its descendants.
\<close>

lemma total_global_end_time_Max:
  "total_global_end_time anc s =
     Max (set (map (\<lambda>(a, n). global_end_time a n) (subtree anc s)))"
proof (induction s arbitrary: anc)
  case (Stim d st u du f its)
  let ?s = "Stim d st u du f its"
  let ?g = "\<lambda>(a, n). global_end_time a n"
  let ?ls = "map (\<lambda>c. map ?g (subtree (?s # anc) c)) its"
  have IH: "map (total_global_end_time (?s # anc)) its = map (\<lambda>l. Max (set l)) ?ls"
    using Stim.IH by simp
  have ne: "\<forall>l \<in> set ?ls. l \<noteq> []"
    by (simp add: subtree_nonempty)
  have "total_global_end_time anc ?s =
        Max (set (global_end_time anc ?s # map (\<lambda>l. Max (set l)) ?ls))"
    by (simp only: total_global_end_time.simps py_max_Max IH)
  also have "\<dots> = Max (set (global_end_time anc ?s # concat ?ls))"
    by (rule Max_concat [OF ne])
  also have "global_end_time anc ?s # concat ?ls = map ?g (subtree anc ?s)"
    by (simp add: map_concat comp_def)
  finally show ?case .
qed

text \<open>\<^verbatim>\<open>total_duration\<close> is the node's own duration, whatever its children are.\<close>

lemma total_duration_own: "total_duration anc s = duration s"
  by (simp add: total_duration_def global_end_time_def)

text \<open>
  C4. The code at \<^verbatim>\<open>Stimulus(items=[SquarePulse(start_time=1, duration=2, amplitude=1)])\<close>:
  the subtree ends at time 3, which \<^verbatim>\<open>total_global_end_time\<close> reports, while
  \<^verbatim>\<open>total_duration\<close> is 0, the duration of the root alone.
\<close>

theorem total_duration_ignores_children:
  "total_global_end_time []
     (Stimulus_init ''stimulus'' 0 None [SquarePulse_init 1 2 1 ''square pulse'' None]) = 3 \<and>
   total_duration []
     (Stimulus_init ''stimulus'' 0 None [SquarePulse_init 1 2 1 ''square pulse'' None]) = 0"
  by (simp add: Stimulus_init_def SquarePulse_init_def total_duration_def global_end_time_def
      global_start_time_def ancestry_def duration_def)

subsection \<open>Saving and loading\<close>

lemmas model_defs = type_of_def Stimulus_attributes_def getattr_def duration_def save_value_def
  get_stimulus_class_def all_classes_def construct_def check_keywords_def accepts_items_def
  bindE_def kw_num_def kw_int_def kw_str_def kw_units_def kw_list_def
  Stimulus_init_def Offset_init_def SquarePulse_init_def SquarePulseTrain_init_def
  SquarePulseSeries_init_def Ramp_init_def Sine_init_def Chirp_init_def Psp_init_def
























text \<open>
  Outside the amended statement: a \<^verbatim>\<open>Ramp\<close> lists \<^verbatim>\<open>initial_amplitude\<close> in
  \<^verbatim>\<open>_attributes\<close> and stores \<^verbatim>\<open>offset\<close>, so it can neither be saved nor compared; a node
  of a class whose constructor takes no \<^verbatim>\<open>items\<close> cannot be loaded once it has a child.
\<close>

lemma ramp_cannot_be_saved:
  "save (Ramp_init st dur sl off d u) = Inl (AttributeError ''initial_amplitude'')"
  by (simp add: model_defs)

lemma ramp_cannot_be_compared:
  "stim_eq (Ramp_init st dur sl off d u) (Ramp_init st dur sl off d u) =
     Inl (AttributeError ''initial_amplitude'')"
  by (simp add: model_defs)

lemma pulse_with_child_cannot_be_loaded:
  "save (Stim ''square pulse'' 0 None 1 (SquarePulseF 1 None) [Stimulus_init ''stimulus'' 0 None []]) =
     Inr (State ''SquarePulse''
           [(''start_time'', PNum 0), (''description'', PStr ''square pulse''), (''units'', PNone),
            (''duration'', PNum 1), (''amplitude'', PNum 1)]
           [State ''Stimulus''
              [(''start_time'', PNum 0), (''description'', PStr ''stimulus''), (''units'', PNone)] []]) \<and>
   load (State ''SquarePulse''
           [(''start_time'', PNum 0), (''description'', PStr ''square pulse''), (''units'', PNone),
            (''duration'', PNum 1), (''amplitude'', PNum 1)]
           [State ''Stimulus''
              [(''start_time'', PNum 0), (''description'', PStr ''stimulus''), (''units'', PNone)] []]) =
     Inl (TypeError ''items'')"
  by (simp add: model_defs)

subsection \<open>Chirp frequencies\<close>

text \<open>
  C9, as amended. For a chirp whose start frequency is not zero, whose end frequency has
  the same sign and differs from it, and whose duration is not zero, \<^verbatim>\<open>frequency_at(0)\<close>
  is the start frequency and \<^verbatim>\<open>frequency_at(duration)\<close> the end frequency (in exact
  arithmetic).
\<close>

theorem chirp_frequency_endpoints:
  "f0 \<noteq> 0 \<and> 0 < f1 / f0 \<and> f1 \<noteq> f0 \<and> dur \<noteq> 0 \<longrightarrow>
   frequency_at (Chirp_init st dur f0 f1 amp ph off d u) 0 = Some f0 \<and>
   frequency_at (Chirp_init st dur f0 f1 amp ph off d u) dur = Some f1"
proof (intro impI)
  assume h: "f0 \<noteq> 0 \<and> 0 < f1 / f0 \<and> f1 \<noteq> f0 \<and> dur \<noteq> 0"
  let ?r = "f1 / f0"
  have f1: "f1 \<noteq> 0" using h by auto
  have r1: "?r \<noteq> 1" using h by simp
  have l: "ln ?r \<noteq> 0" using h r1 by simp
  have d: "duration (Chirp_init st dur f0 f1 amp ph off d u) = dur"
    by (simp add: Chirp_init_def duration_def)
  have kr: "Chirp_kr (Chirp_init st dur f0 f1 amp ph off d u) = (Some (2 * pi * dur * f0 / ln ?r), ?r)"
    using h l by (simp add: Chirp_kr_def d np_log_def fdiv_def Let_def) (simp add: Chirp_init_def)
  have rpos: "0 < ?r" using h by simp
  have val: "2 * pi * dur * f0 / ln ?r * ln ?r * x / (2 * pi * dur) = f0 * x" for x
    using h l by (simp add: field_simps)
  have fa: "frequency_at (Chirp_init st dur f0 f1 amp ph off d u) t =
            Some (f0 * ?r powr (t / dur))" for t
    using h rpos val [of "?r powr (t / dur)"]
    by (simp add: frequency_at_def kr d np_log_def fdiv_def del: ln_div powr_divide)
  have a: "frequency_at (Chirp_init st dur f0 f1 amp ph off d u) 0 = Some f0"
    using rpos f1 by (simp add: fa)
  have dd: "dur / dur = 1" using h by simp
  have "?r powr (dur / dur) = ?r"
    unfolding dd using rpos by (intro powr_one) simp
  then have b: "frequency_at (Chirp_init st dur f0 f1 amp ph off d u) dur = Some f1"
    using h by (simp add: fa)
  from a b show "frequency_at (Chirp_init st dur f0 f1 amp ph off d u) 0 = Some f0 \<and>
   frequency_at (Chirp_init st dur f0 f1 amp ph off d u) dur = Some f1" by simp
qed

text \<open>The amended C9 at a chirp from 1 Hz to 2 Hz lasting one second.\<close>

theorem chirp_frequency_endpoints_witness:
  "(1::real) \<noteq> 0 \<and> (0::real) < 2 / 1 \<and> (2::real) \<noteq> 1 \<and> (1::real) \<noteq> 0 \<and>
   frequency_at (Chirp_init 0 1 1 2 1 0 0 ''frequency chirp'' None) 0 = Some 1 \<and>
   frequency_at (Chirp_init 0 1 1 2 1 0 0 ''frequency chirp'' None) 1 = Some 2"
  using chirp_frequency_endpoints [of 1 2 1 0 1 0 0 "''frequency chirp''" None]
  by simp

text \<open>
  C9 as stated fails: with equal start and end frequencies \<^verbatim>\<open>r\<close> is 1, \<^verbatim>\<open>np.log(r)\<close> is
  0, \<^verbatim>\<open>k\<close> is a division by zero, and \<^verbatim>\<open>frequency_at\<close> has no finite value; likewise for
  frequencies of opposite signs, where the logarithm of a negative number is taken.
\<close>

theorem chirp_equal_frequencies_undefined:
  "frequency_at (Chirp_init 0 1 10 10 1 0 0 ''frequency chirp'' None) 0 = None"
  by (simp add: frequency_at_def Chirp_kr_def Chirp_init_def duration_def np_log_def fdiv_def)

lemma chirp_opposite_signs_undefined:
  "frequency_at (Chirp_init 0 1 10 (-10) 1 0 0 ''frequency chirp'' None) 0 = None"
  by (simp add: frequency_at_def Chirp_kr_def Chirp_init_def duration_def np_log_def fdiv_def)

subsection \<open>Pulses found in noise-free data\<close>

lemma find_loop_filter:
  "find_loop X trace b changes es pulses =
     pulses @ map (\<lambda>(i, start). found_pulse X trace b changes i start)
                (filter (\<lambda>(i, start). ts_data trace ! start - b \<noteq> 0) es)"
  by (induction es arbitrary: pulses) auto

lemma enumerate_list_map: "enumerate_list xs = map (\<lambda>i. (i, xs ! i)) [0 ..< length xs]"
  unfolding enumerate_list_def by (rule nth_equalityI) simp_all

lemma found_pulse_shape:
  "found_pulse X trace b changes i start =
     Stim ''square pulse'' (time_at X (ts_timing trace) start) (ts_units trace)
       (of_int (int (stop_of changes (length (ts_data trace)) i) - int start) *
          dt_of X (ts_timing trace))
       (SquarePulseF (ts_data trace ! start - b) (Some i)) []"
  by (simp add: found_pulse_def SquarePulse_init_def)

text \<open>
  C8, as amended. \<^verbatim>\<open>find_square_pulses\<close> returns, in the order of the boundaries, one
  \<^verbatim>\<open>SquarePulse\<close> for every boundary \<open>changes[i]\<close> at which the sample differs from the
  baseline (the given one, or the first sample): its start time is the time of that
  sample, its amplitude the sample minus the baseline, its duration the distance to the
  next boundary (to the end of the series for the last one) times \<^verbatim>\<open>dt\<close>, and its
  \<^verbatim>\<open>pulse_number\<close> is \<open>i\<close>, the position of the boundary among all boundaries. The numbers
  increase along the result; they skip the boundaries at which the signal is at baseline.
\<close>

theorem find_square_pulses_runs:
  "find_square_pulses X trace baseline = Inr ps \<longrightarrow>
     (\<exists>b. (baseline = Some b \<or> baseline = None \<and> ts_data trace \<noteq> [] \<and> b = hd (ts_data trace)) \<and>
       ps = map (\<lambda>i. Stim ''square pulse''
                      (time_at X (ts_timing trace) (changes_of (ts_data trace) ! i))
                      (ts_units trace)
                      (of_int (int (stop_of (changes_of (ts_data trace)) (length (ts_data trace)) i)
                                 - int (changes_of (ts_data trace) ! i))
                         * dt_of X (ts_timing trace))
                      (SquarePulseF (ts_data trace ! (changes_of (ts_data trace) ! i) - b) (Some i))
                      [])
              (filter (\<lambda>i. ts_data trace ! (changes_of (ts_data trace) ! i) - b \<noteq> 0)
                 [0 ..< length (changes_of (ts_data trace))]))"
proof
  assume r: "find_square_pulses X trace baseline = Inr ps"
  let ?ch = "changes_of (ts_data trace)"
  have loop: "find_loop X trace b ?ch (enumerate_list ?ch) [] =
      map (\<lambda>i. found_pulse X trace b ?ch i (?ch ! i))
        (filter (\<lambda>i. ts_data trace ! (?ch ! i) - b \<noteq> 0) [0 ..< length ?ch])" for b
    by (simp add: find_loop_filter enumerate_list_map filter_map comp_def)
  show "\<exists>b. (baseline = Some b \<or> baseline = None \<and> ts_data trace \<noteq> [] \<and> b = hd (ts_data trace)) \<and>
       ps = map (\<lambda>i. Stim ''square pulse''
                      (time_at X (ts_timing trace) (?ch ! i))
                      (ts_units trace)
                      (of_int (int (stop_of ?ch (length (ts_data trace)) i) - int (?ch ! i))
                         * dt_of X (ts_timing trace))
                      (SquarePulseF (ts_data trace ! (?ch ! i) - b) (Some i))
                      [])
              (filter (\<lambda>i. ts_data trace ! (?ch ! i) - b \<noteq> 0) [0 ..< length ?ch])"
  proof (cases baseline)
    case (Some b)
    then show ?thesis
      using r loop [of b] by (auto simp: find_square_pulses_def found_pulse_shape)
  next
    case None
    show ?thesis
    proof (cases "ts_data trace")
      case Nil
      then show ?thesis using r None by (simp add: find_square_pulses_def)
    next
      case (Cons x xs)
      then show ?thesis
        using r None loop [of x] by (auto simp: find_square_pulses_def found_pulse_shape)
    qed
  qed
qed

text \<open>
  C8 as stated fails: in the series 0, 1, 0, 2, 0 two pulses are found, and they are
  numbered 0 and 2, since the return to the baseline between them is boundary 1.
\<close>

lemma changes_ex: "changes_of [0, 1, 0, 2, 0] = [1, 2, 3, 4]"
  by (simp add: changes_of_def argwhere_def upt_rec)

theorem pulse_numbers_skip:
  "find_square_pulses (regular_ops (\<lambda>x xo yo r d a p. 0))
     (TSeries [0, 1, 0, 2, 0] (Some 0) (Some 1) None None None) None =
     Inr [Stim ''square pulse'' 1 None 1 (SquarePulseF 1 (Some 0)) [],
          Stim ''square pulse'' 3 None 1 (SquarePulseF 2 (Some 2)) []]"
  by (simp add: find_square_pulses_def TSeries_def changes_ex enumerate_list_def upt_rec
      found_pulse_def SquarePulse_init_def stop_of_def regular_ops_def regular_time_at_def regular_dt_def)

text \<open>The amended C8 at a staircase sampled every half second, with baseline 0.\<close>

theorem find_square_pulses_runs_witness:
  "find_square_pulses (regular_ops (\<lambda>x xo yo r d a p. 0))
     (TSeries [0, 1, 1, 2, 2, 0] (Some 0) (Some (1/2)) None None (Some ''A'')) (Some 0) =
     Inr [Stim ''square pulse'' (1/2) (Some ''A'') 1 (SquarePulseF 1 (Some 0)) [],
          Stim ''square pulse'' (3/2) (Some ''A'') 1 (SquarePulseF 2 (Some 1)) []] \<and>
   (\<exists>b. (Some 0 = Some b \<or> Some (0::real) = None \<and> ts_data (TSeries [0, 1, 1, 2, 2, 0] (Some 0) (Some (1/2)) None None (Some ''A'')) \<noteq> [] \<and> b = hd (ts_data (TSeries [0, 1, 1, 2, 2, 0] (Some 0) (Some (1/2)) None None (Some ''A'')))) \<and>
       [Stim ''square pulse'' (1/2) (Some ''A'') 1 (SquarePulseF 1 (Some 0)) [],
          Stim ''square pulse'' (3/2) (Some ''A'') 1 (SquarePulseF 2 (Some 1)) []] = map (\<lambda>i. Stim ''square pulse''
                      (time_at (regular_ops (\<lambda>x xo yo r d a p. 0)) (ts_timing (TSeries [0, 1, 1, 2, 2, 0] (Some 0) (Some (1/2)) None None (Some ''A''))) (changes_of (ts_data (TSeries [0, 1, 1, 2, 2, 0] (Some 0) (Some (1/2)) None None (Some ''A''))) ! i))
                      (ts_units (TSeries [0, 1, 1, 2, 2, 0] (Some 0) (Some (1/2)) None None (Some ''A'')))
                      (of_int (int (stop_of (changes_of (ts_data (TSeries [0, 1, 1, 2, 2, 0] (Some 0) (Some (1/2)) None None (Some ''A'')))) (length (ts_data (TSeries [0, 1, 1, 2, 2, 0] (Some 0) (Some (1/2)) None None (Some ''A'')))) i)
                                 - int (changes_of (ts_data (TSeries [0, 1, 1, 2, 2, 0] (Some 0) (Some (1/2)) None None (Some ''A''))) ! i))
                         * dt_of (regular_ops (\<lambda>x xo yo r d a p. 0)) (ts_timing (TSeries [0, 1, 1, 2, 2, 0] (Some 0) (Some (1/2)) None None (Some ''A''))))
                      (SquarePulseF (ts_data (TSeries [0, 1, 1, 2, 2, 0] (Some 0) (Some (1/2)) None None (Some ''A'')) ! (changes_of (ts_data (TSeries [0, 1, 1, 2, 2, 0] (Some 0) (Some (1/2)) None None (Some ''A''))) ! i) - b) (Some i))
                      [])
              (filter (\<lambda>i. ts_data (TSeries [0, 1, 1, 2, 2, 0] (Some 0) (Some (1/2)) None None (Some ''A'')) ! (changes_of (ts_data (TSeries [0, 1, 1, 2, 2, 0] (Some 0) (Some (1/2)) None None (Some ''A''))) ! i) - b \<noteq> 0)
                 [0 ..< length (changes_of (ts_data (TSeries [0, 1, 1, 2, 2, 0] (Some 0) (Some (1/2)) None None (Some ''A''))))]))"
proof -
  let ?X = "(regular_ops (\<lambda>x xo yo r d a p. 0))"
  let ?tr = "(TSeries [0, 1, 1, 2, 2, 0] (Some 0) (Some (1/2)) None None (Some ''A''))"
  let ?ps = "[Stim ''square pulse'' (1/2) (Some ''A'') 1 (SquarePulseF 1 (Some 0)) [],
          Stim ''square pulse'' (3/2) (Some ''A'') 1 (SquarePulseF 2 (Some 1)) []]"
  have ch: "changes_of [0, 1, 1, 2, 2, 0] = [1, 3, 5]"
    by (simp add: changes_of_def argwhere_def upt_rec)
  have h: "find_square_pulses ?X ?tr (Some 0) = Inr ?ps"
    by (simp add: find_square_pulses_def TSeries_def ch enumerate_list_def upt_rec
      found_pulse_def SquarePulse_init_def stop_of_def regular_ops_def regular_time_at_def
      regular_dt_def)
  show ?thesis
    by (rule conjI [OF h mp [OF find_square_pulses_runs h]])
qed

subsection \<open>Pulses found in noisy data\<close>














subsection \<open>Making the buffer\<close>

text \<open>
  Both \<^verbatim>\<open>eval\<close> and \<^verbatim>\<open>mask\<close> raise the assertion of \<^verbatim>\<open>_make_eval_trace\<close>, before anything
  is written, when neither a buffer nor time values nor a number of samples is given. Whether
  a step or rate comes with the number of samples is not checked by this module.
\<close>

lemma eval_mask_need_a_buffer:
  "arg_trace kw = None \<Longrightarrow> arg_time_values kw = None \<Longrightarrow> arg_n_pts kw = None \<Longrightarrow>
   eval X anc s kw = Inl (AssertionError ''Must specify n_pts, time_values, or trace.'') \<and>
   mask X anc s kw = Inl (AssertionError ''Must specify n_pts, time_values, or trace.'')"
  by (simp add: eval_def mask_def make_eval_trace_def)


subsection \<open>Order of the children in evaluation\<close>





lemma update_window_accumulate:
  "trace\<lparr>ts_data := update_window (\<lambda>x j. f x (c j)) i1 i2 (ts_data trace)\<rparr> =
   accumulate f (\<lambda>tm n i. if i1 \<le> i \<and> i < i2 then [c (i - i1)] else []) trace"
  by (simp add: update_window_def accumulate_def)






































subsection \<open>Detecting evaluated pulses\<close>












end
